theory Spec2Isabelle
  imports Complex_Main "HOL-Library.Log_Nat"
begin

section \<open>Data model of the service monitor\<close>

text \<open>
  The development follows \<^verbatim>\<open>src/step4_monitoring/src/monitor.py\<close>.
  Wall-clock readings (\<^verbatim>\<open>datetime.now()\<close>) are integers counting microseconds,
  the resolution of Python's \<^verbatim>\<open>datetime\<close> and \<^verbatim>\<open>timedelta\<close>; every reading is an
  explicit argument of the function that takes it. Latencies and the continuous thresholds
  are Python floats, idealised here as real numbers; the error rate is computed in
  double precision, with the roundings of the source.
\<close>

type_synonym datetime = int

datatype error =
    KeyError string
  | IndexError
  | ZeroDivisionError
  | AttributeError

record RequestMetrics =
  endpoint :: string
  response_time :: real
  status_code :: int
  success :: bool
  timestamp :: datetime

record ServiceMetrics =
  m_timestamp :: datetime
  response_time_avg :: real
  response_time_p95 :: real
  error_rate :: real
  total_requests :: int
  successful_requests :: int
  failed_requests :: int
  m_consecutive_failures :: int
  m_health_status :: bool

text \<open>The mutable fields of \<^verbatim>\<open>ServiceMonitor\<close> set up by \<^verbatim>\<open>__init__\<close>.\<close>

record ServiceMonitor =
  request_history :: "RequestMetrics list"
  metrics_history :: "ServiceMetrics list"
  consecutive_failures :: int
  last_alert_time :: "string \<rightharpoonup> datetime"
  health_status :: bool

definition init_monitor :: ServiceMonitor where
  "init_monitor =
     \<lparr>request_history = [], metrics_history = [], consecutive_failures = 0,
      last_alert_time = Map.empty, health_status = False\<rparr>"

section \<open>Double-precision arithmetic\<close>

text \<open>
  A Python float is an IEEE 754 binary64 number: 53 significant bits, exponents from -1022
  to 1023, results rounded to the nearest representable number and to the one with an even
  significand on a tie. A finite double is the rational number it denotes.
\<close>

text \<open>The exponent \<open>e\<close> of a positive rational \<open>x\<close>: the integer with \<open>2\<^sup>e \<le> x < 2\<^sup>e\<^sup>+\<^sup>1\<close>.\<close>

definition ilog2 :: "rat \<Rightarrow> int" where
  "ilog2 x =
     (let (p, q) = quotient_of x;
          d = bitlen p - bitlen q
      in if 2 powi d \<le> x then d else d - 1)"

text \<open>The nearest integer, the even one of the two when \<open>x\<close> lies half-way.\<close>

definition round_half_even :: "rat \<Rightarrow> int" where
  "round_half_even x =
     (let k = \<lfloor>x\<rfloor>; r = x - of_int k
      in if r < 1 / 2 then k
         else if r > 1 / 2 then k + 1
         else if even k then k else k + 1)"

text \<open>
  The double nearest to \<open>x\<close>. Below \<open>2\<^sup>-\<^sup>1\<^sup>0\<^sup>2\<^sup>2\<close> the spacing stays that of the subnormal
  numbers. Overflow is not modelled: the results of \<^verbatim>\<open>calculate_metrics\<close> are at most 100.
\<close>

definition round_double :: "rat \<Rightarrow> rat" where
  "round_double x =
     (if x = 0 then 0
      else let a = \<bar>x\<bar>;
               e = max (ilog2 a) (- 1022);
               ulp = 2 powi (e - 52);
               y = of_int (round_half_even (a / ulp)) * ulp
           in if x < 0 then - y else y)"

section \<open>Aggregation: \<^verbatim>\<open>calculate_metrics\<close>\<close>

text \<open>\<^verbatim>\<open>statistics.mean\<close>, called on a non-empty list only.\<close>

definition mean :: "real list \<Rightarrow> real" where
  "mean xs = sum_list xs / real (length xs)"

text \<open>
  \<^verbatim>\<open>int(0.95 * len(sorted_times))\<close>: truncation of a non-negative product. The factor is
  taken as the exact decimal; the double nearest to 0.95 lies below it by less than
  \<open>5 * 10\<^sup>-\<^sup>1\<^sup>7\<close>, and the rounded double product gives the same integer part for every
  length a list in memory can have.
\<close>

definition p95_index :: "nat \<Rightarrow> nat" where
  "p95_index n = nat \<lfloor>0.95 * real n\<rfloor>"

text \<open>\<^verbatim>\<open>sorted_times[p95_index]\<close>: a read past the end raises \<^verbatim>\<open>IndexError\<close>.\<close>

definition p95_latency :: "real list \<Rightarrow> error + real" where
  "p95_latency response_times =
     (let sorted_times = sort response_times;
          i = p95_index (length sorted_times)
      in if i < length sorted_times then Inr (sorted_times ! i) else Inl IndexError)"

text \<open>
  In \<^verbatim>\<open>failed_count / total_requests * 100\<close> the quotient of the two integers is rounded
  to a double, and so is its product with 100.
\<close>

definition calculate_metrics ::
  "ServiceMonitor \<Rightarrow> datetime \<Rightarrow> RequestMetrics list \<Rightarrow> error + (ServiceMetrics \<times> ServiceMonitor)" where
  "calculate_metrics self now requests =
     (if requests = [] then
        Inr (\<lparr>m_timestamp = now, response_time_avg = 0, response_time_p95 = 0,
              error_rate = 100, total_requests = 0, successful_requests = 0,
              failed_requests = 0,
              m_consecutive_failures = consecutive_failures self,
              m_health_status = health_status self\<rparr>, self)
      else
        let response_times = map response_time (filter success requests);
            successful_requests' = filter success requests;
            failed_requests' = filter (\<lambda>r. \<not> success r) requests;
            total_requests' = int (length requests);
            successful_count = int (length successful_requests');
            failed_count = int (length failed_requests');
            avg_response_time = (if response_times \<noteq> [] then mean response_times else 0)
        in case (if response_times \<noteq> [] then p95_latency response_times else Inr 0) of
             Inl e \<Rightarrow> Inl e
           | Inr p95 \<Rightarrow>
               let error_rate' =
                     (if total_requests' > 0
                      then real_of_rat
                             (round_double
                                (round_double (of_int failed_count / of_int total_requests') * 100))
                      else 100);
                   self' = self\<lparr>consecutive_failures :=
                             (if failed_count > 0 then consecutive_failures self + failed_count
                              else 0)\<rparr>
               in Inr (\<lparr>m_timestamp = now, response_time_avg = avg_response_time,
                         response_time_p95 = p95, error_rate = error_rate',
                         total_requests = total_requests',
                         successful_requests = successful_count,
                         failed_requests = failed_count,
                         m_consecutive_failures = consecutive_failures self',
                         m_health_status = health_status self'\<rparr>, self'))"

section \<open>Configuration\<close>

text \<open>
  The parts of \<^verbatim>\<open>config.py\<close> that the monitor reads. Each threshold table is a
  Python \<^verbatim>\<open>dict\<close> indexed by the strings \<^verbatim>\<open>'warning'\<close> and \<^verbatim>\<open>'critical'\<close>; a subscript
  with a key that is absent raises \<^verbatim>\<open>KeyError\<close>.
\<close>

record ThresholdsConfig =
  response_time_ms :: "string \<rightharpoonup> real"
  p95_latency_ms :: "string \<rightharpoonup> real"
  error_rate_percent :: "string \<rightharpoonup> real"
  th_consecutive_failures :: "string \<rightharpoonup> int"

record AlertsConfig =
  enabled :: bool
  cooldown_minutes :: int

record Config =
  endpoints :: "string \<rightharpoonup> string"
  samples_per_check :: int
  inference_test_interval_minutes :: int
  inference_test_enabled :: bool
  thresholds :: ThresholdsConfig
  alerts :: AlertsConfig

definition getitem :: "(string \<rightharpoonup> 'v) \<Rightarrow> string \<Rightarrow> error + 'v" where
  "getitem d k = (case d k of None \<Rightarrow> Inl (KeyError k) | Some v \<Rightarrow> Inr v)"

text \<open>Sequencing of two computations, the first of which may raise.\<close>

definition bind_err :: "error + 'a \<Rightarrow> ('a \<Rightarrow> error + 'b) \<Rightarrow> error + 'b" where
  "bind_err r f = (case r of Inl e \<Rightarrow> Inl e | Inr v \<Rightarrow> f v)"

section \<open>Threshold evaluation: \<^verbatim>\<open>check_thresholds\<close>\<close>

text \<open>
  The \<^verbatim>\<open>message\<close> of an alert is a formatted sentence; one constructor stands for each
  template of the source and carries the number the template prints.
\<close>

datatype alert_message =
    CriticalResponseTime real
  | HighResponseTime real
  | CriticalP95Latency real
  | HighP95Latency real
  | CriticalErrorRate real
  | HighErrorRate real
  | CriticalConsecutiveFailures int
  | ManyConsecutiveFailures int
  | ServiceUnavailable

record Alert =
  alert_type :: string
  level :: string
  message :: alert_message
  alert_value :: real
  threshold :: real

definition response_time_alerts :: "Config \<Rightarrow> ServiceMetrics \<Rightarrow> error + Alert list" where
  "response_time_alerts config metrics =
     bind_err (getitem (response_time_ms (thresholds config)) ''critical'') (\<lambda>critical.
       if response_time_avg metrics > critical then
         Inr [\<lparr>alert_type = ''response_time'', level = ''critical'',
               message = CriticalResponseTime (response_time_avg metrics),
               alert_value = response_time_avg metrics, threshold = critical\<rparr>]
       else
         bind_err (getitem (response_time_ms (thresholds config)) ''warning'') (\<lambda>warning.
           if response_time_avg metrics > warning then
             Inr [\<lparr>alert_type = ''response_time'', level = ''warning'',
                   message = HighResponseTime (response_time_avg metrics),
                   alert_value = response_time_avg metrics, threshold = warning\<rparr>]
           else Inr []))"

definition p95_latency_alerts :: "Config \<Rightarrow> ServiceMetrics \<Rightarrow> error + Alert list" where
  "p95_latency_alerts config metrics =
     bind_err (getitem (p95_latency_ms (thresholds config)) ''critical'') (\<lambda>critical.
       if response_time_p95 metrics > critical then
         Inr [\<lparr>alert_type = ''p95_latency'', level = ''critical'',
               message = CriticalP95Latency (response_time_p95 metrics),
               alert_value = response_time_p95 metrics, threshold = critical\<rparr>]
       else
         bind_err (getitem (p95_latency_ms (thresholds config)) ''warning'') (\<lambda>warning.
           if response_time_p95 metrics > warning then
             Inr [\<lparr>alert_type = ''p95_latency'', level = ''warning'',
                   message = HighP95Latency (response_time_p95 metrics),
                   alert_value = response_time_p95 metrics, threshold = warning\<rparr>]
           else Inr []))"

definition error_rate_alerts :: "Config \<Rightarrow> ServiceMetrics \<Rightarrow> error + Alert list" where
  "error_rate_alerts config metrics =
     bind_err (getitem (error_rate_percent (thresholds config)) ''critical'') (\<lambda>critical.
       if error_rate metrics > critical then
         Inr [\<lparr>alert_type = ''error_rate'', level = ''critical'',
               message = CriticalErrorRate (error_rate metrics),
               alert_value = error_rate metrics, threshold = critical\<rparr>]
       else
         bind_err (getitem (error_rate_percent (thresholds config)) ''warning'') (\<lambda>warning.
           if error_rate metrics > warning then
             Inr [\<lparr>alert_type = ''error_rate'', level = ''warning'',
                   message = HighErrorRate (error_rate metrics),
                   alert_value = error_rate metrics, threshold = warning\<rparr>]
           else Inr []))"

definition consecutive_failures_alerts :: "Config \<Rightarrow> ServiceMetrics \<Rightarrow> error + Alert list" where
  "consecutive_failures_alerts config metrics =
     bind_err (getitem (th_consecutive_failures (thresholds config)) ''critical'') (\<lambda>critical.
       if m_consecutive_failures metrics \<ge> critical then
         Inr [\<lparr>alert_type = ''consecutive_failures'', level = ''critical'',
               message = CriticalConsecutiveFailures (m_consecutive_failures metrics),
               alert_value = real_of_int (m_consecutive_failures metrics),
               threshold = real_of_int critical\<rparr>]
       else
         bind_err (getitem (th_consecutive_failures (thresholds config)) ''warning'') (\<lambda>warning.
           if m_consecutive_failures metrics \<ge> warning then
             Inr [\<lparr>alert_type = ''consecutive_failures'', level = ''warning'',
                   message = ManyConsecutiveFailures (m_consecutive_failures metrics),
                   alert_value = real_of_int (m_consecutive_failures metrics),
                   threshold = real_of_int warning\<rparr>]
           else Inr []))"

definition health_status_alerts :: "ServiceMetrics \<Rightarrow> Alert list" where
  "health_status_alerts metrics =
     (if \<not> m_health_status metrics then
        [\<lparr>alert_type = ''health_status'', level = ''critical'',
          message = ServiceUnavailable, alert_value = 0, threshold = 1\<rparr>]
      else [])"

text \<open>The five blocks run in the order of the source, each appending to \<^verbatim>\<open>alerts\<close>.\<close>

definition check_thresholds :: "Config \<Rightarrow> ServiceMetrics \<Rightarrow> error + Alert list" where
  "check_thresholds config metrics =
     bind_err (response_time_alerts config metrics) (\<lambda>a1.
     bind_err (p95_latency_alerts config metrics) (\<lambda>a2.
     bind_err (error_rate_alerts config metrics) (\<lambda>a3.
     bind_err (consecutive_failures_alerts config metrics) (\<lambda>a4.
       Inr (a1 @ a2 @ a3 @ a4 @ health_status_alerts metrics)))))"

section \<open>Cooldown gate: \<^verbatim>\<open>should_alert\<close>\<close>

text \<open>\<^verbatim>\<open>timedelta(minutes=n)\<close> in microseconds.\<close>

definition timedelta_minutes :: "int \<Rightarrow> int" where
  "timedelta_minutes n = n * 60000000"

definition timedelta_hours :: "int \<Rightarrow> int" where
  "timedelta_hours n = n * 3600000000"

definition should_alert ::
  "Config \<Rightarrow> ServiceMonitor \<Rightarrow> datetime \<Rightarrow> string \<Rightarrow> string \<Rightarrow> bool \<times> ServiceMonitor" where
  "should_alert config self now a_type a_level =
     (if \<not> enabled (alerts config) then (False, self)
      else
        let alert_key = a_type @ ''_'' @ a_level;
            fire = (True, self\<lparr>last_alert_time := (last_alert_time self)(alert_key \<mapsto> now)\<rparr>)
        in case last_alert_time self alert_key of
             None \<Rightarrow> fire
           | Some last_fired \<Rightarrow>
               let time_since_last_alert = now - last_fired;
                   cooldown = timedelta_minutes (cooldown_minutes (alerts config))
               in if time_since_last_alert < cooldown then (False, self) else fire)"

section \<open>Metric emission: \<^verbatim>\<open>log_metrics\<close>\<close>

text \<open>One call of the logger's \<^verbatim>\<open>log_metric(name, value, status)\<close>.\<close>

record MetricRecord =
  metric :: string
  metric_value :: real
  status :: string

text \<open>
  The chain that sets \<^verbatim>\<open>overall_status\<close>. The disjunction of its second and fourth
  branch, at the key \<open>k\<close>, comes first: Python's \<^verbatim>\<open>or\<close> does not evaluate its second
  operand, and so does not read the table there, when the first is true.
\<close>

definition latency_or_failures :: "Config \<Rightarrow> ServiceMetrics \<Rightarrow> string \<Rightarrow> error + bool" where
  "latency_or_failures config metrics k =
     bind_err (getitem (response_time_ms (thresholds config)) k) (\<lambda>rt.
       if response_time_avg metrics > rt then Inr True
       else bind_err (getitem (th_consecutive_failures (thresholds config)) k) (\<lambda>cf.
              Inr (m_consecutive_failures metrics \<ge> cf)))"

definition overall_status :: "Config \<Rightarrow> ServiceMetrics \<Rightarrow> error + string" where
  "overall_status config metrics =
     bind_err (getitem (error_rate_percent (thresholds config)) ''critical'') (\<lambda>er_critical.
       if error_rate metrics > er_critical then Inr ''critical''
       else bind_err (latency_or_failures config metrics ''critical'') (\<lambda>is_critical.
         if is_critical then Inr ''critical''
         else bind_err (getitem (error_rate_percent (thresholds config)) ''warning'') (\<lambda>er_warning.
           if error_rate metrics > er_warning then Inr ''warning''
           else bind_err (latency_or_failures config metrics ''warning'') (\<lambda>is_warning.
             if is_warning then Inr ''warning'' else Inr ''normal''))))"

text \<open>The records handed to the logger, in the order of the calls.\<close>

definition log_metrics :: "Config \<Rightarrow> ServiceMetrics \<Rightarrow> error + MetricRecord list" where
  "log_metrics config metrics =
     bind_err (overall_status config metrics) (\<lambda>overall.
       Inr [\<lparr>metric = ''response_time_avg'', metric_value = response_time_avg metrics,
              status = overall\<rparr>,
            \<lparr>metric = ''response_time_p95'', metric_value = response_time_p95 metrics,
              status = overall\<rparr>,
            \<lparr>metric = ''error_rate'', metric_value = error_rate metrics,
              status = overall\<rparr>,
            \<lparr>metric = ''consecutive_failures'',
              metric_value = real_of_int (m_consecutive_failures metrics),
              status = overall\<rparr>,
            \<lparr>metric = ''health_status'',
              metric_value = (if m_health_status metrics then 1.0 else 0.0),
              status = (if m_health_status metrics then ''normal'' else ''critical'')\<rparr>])"

section \<open>Probing: \<^verbatim>\<open>check_health\<close> and \<^verbatim>\<open>perform_request\<close>\<close>

text \<open>
  What the network did to the one request a probe sends: a response with its status, or an
  exception raised inside the \<^verbatim>\<open>try\<close> block. The two readings of \<^verbatim>\<open>time.time()\<close> a probe
  takes are in seconds.
\<close>

datatype http_outcome = Response int | Raised

record ProbeResult =
  outcome :: http_outcome
  start_time :: real
  end_time :: real
  observed_at :: datetime

text \<open>\<^verbatim>\<open>str.upper\<close> on the ASCII letters.\<close>

definition upper_char :: "char \<Rightarrow> char" where
  "upper_char c =
     (case map_of (zip ''abcdefghijklmnopqrstuvwxyz'' ''ABCDEFGHIJKLMNOPQRSTUVWXYZ'') c of
        Some u \<Rightarrow> u
      | None \<Rightarrow> c)"

definition upper :: "string \<Rightarrow> string" where
  "upper s = map upper_char s"

text \<open>Truth value of an optional \<^verbatim>\<open>dict\<close>: \<^verbatim>\<open>None\<close> and the empty dictionary are false.\<close>

definition truthy :: "(string \<times> string) list option \<Rightarrow> bool" where
  "truthy data = (case data of None \<Rightarrow> False | Some d \<Rightarrow> d \<noteq> [])"

text \<open>
  The URL is built inside the \<^verbatim>\<open>try\<close> block, so a missing \<^verbatim>\<open>'health'\<close> entry ends in
  the handler like any other exception.
\<close>

definition check_health :: "Config \<Rightarrow> ProbeResult \<Rightarrow> bool \<times> real" where
  "check_health config p =
     (let response_time = (end_time p - start_time p) * 1000 in
      case getitem (endpoints config) ''health'' of
        Inl e \<Rightarrow> (False, response_time)
      | Inr url \<Rightarrow>
          (case outcome p of
             Response st \<Rightarrow> if st = 200 then (True, response_time) else (False, response_time)
           | Raised \<Rightarrow> (False, response_time)))"

text \<open>
  \<^verbatim>\<open>perform_request\<close> has no branch for a method that is neither \<^verbatim>\<open>GET\<close> nor a
  \<^verbatim>\<open>POST\<close> with data: control leaves the \<^verbatim>\<open>try\<close> block and the function ends
  without a \<^verbatim>\<open>return\<close>, which in Python yields \<^verbatim>\<open>None\<close>. The result is therefore an
  option, \<open>None\<close> standing for Python's \<^verbatim>\<open>None\<close>.
\<close>

definition perform_request ::
  "string \<Rightarrow> string \<Rightarrow> (string \<times> string) list option \<Rightarrow> ProbeResult \<Rightarrow> RequestMetrics option" where
  "perform_request ep method data p =
     (let response_time = (end_time p - start_time p) * 1000;
          answered = (\<lambda>st. Some \<lparr>endpoint = ep, response_time = response_time,
                                 status_code = st, success = (st < 400),
                                 timestamp = observed_at p\<rparr>);
          failed = Some \<lparr>endpoint = ep, response_time = response_time,
                         status_code = 0, success = False, timestamp = observed_at p\<rparr>
      in if upper method = ''GET'' then
           (case outcome p of Response st \<Rightarrow> answered st | Raised \<Rightarrow> failed)
         else if upper method = ''POST'' \<and> truthy data then
           (case outcome p of Response st \<Rightarrow> answered st | Raised \<Rightarrow> failed)
         else None)"

section \<open>History pruning: \<^verbatim>\<open>_cleanup_old_data\<close>\<close>

definition cleanup_old_data :: "datetime \<Rightarrow> ServiceMonitor \<Rightarrow> ServiceMonitor" where
  "cleanup_old_data now self =
     (let cutoff_time = now - timedelta_hours 1 in
      self\<lparr>request_history := filter (\<lambda>r. timestamp r > cutoff_time) (request_history self),
           metrics_history := filter (\<lambda>m. m_timestamp m > cutoff_time) (metrics_history self)\<rparr>)"

section \<open>One cycle: \<^verbatim>\<open>monitoring_cycle\<close>\<close>

text \<open>
  Everything a cycle reads from outside: the outcome of the health probe and of the
  further requests (numbered from 0), the clock readings, and the result of
  \<^verbatim>\<open>test_inference\<close>, which changes no field of the monitor.
\<close>

record CycleEnv =
  health_probe :: ProbeResult
  health_sample_now :: datetime
  probes :: "nat \<Rightarrow> ProbeResult"
  metrics_now :: datetime
  alert_now :: "nat \<Rightarrow> datetime"
  current_minute :: int
  inference_result :: "bool \<times> real"
  cleanup_now :: datetime

text \<open>
  What a cycle leaves behind: the monitor, the alerts and metric records handed to the
  logger, and the exception that ended the cycle early, if any.
\<close>

record CycleResult =
  final :: ServiceMonitor
  emitted :: "Alert list"
  logged :: "MetricRecord list"
  raised :: "error option"

text \<open>The loop over \<^verbatim>\<open>alerts\<close>; the \<open>i\<close>-th call of the gate reads the clock at \<open>clock i\<close>.\<close>

fun gate_alerts ::
  "Config \<Rightarrow> (nat \<Rightarrow> datetime) \<Rightarrow> nat \<Rightarrow> ServiceMonitor \<Rightarrow> Alert list \<Rightarrow> Alert list \<times> ServiceMonitor" where
  "gate_alerts config clock i self [] = ([], self)"
| "gate_alerts config clock i self (a # as) =
     (let (fire, self') = should_alert config self (clock i) (alert_type a) (level a);
          (fired, self'') = gate_alerts config clock (Suc i) self' as
      in (if fire then a # fired else fired, self''))"

definition inference_records :: "Config \<Rightarrow> CycleEnv \<Rightarrow> error + MetricRecord list" where
  "inference_records config env =
     (if \<not> inference_test_enabled config then Inr []
      else if inference_test_interval_minutes config = 0 then Inl ZeroDivisionError
      else if current_minute env mod inference_test_interval_minutes config = 0 then
        (let (inference_ok, inference_time) = inference_result env in
         if inference_ok then
           Inr [\<lparr>metric = ''inference_time'', metric_value = inference_time,
                  status = ''normal''\<rparr>]
         else
           Inr [\<lparr>metric = ''inference_failure'', metric_value = 1.0,
                  status = ''critical''\<rparr>])
      else Inr [])"

definition monitoring_cycle :: "Config \<Rightarrow> CycleEnv \<Rightarrow> ServiceMonitor \<Rightarrow> CycleResult" where
  "monitoring_cycle config env self =
     (let (health_ok, health_response_time) = check_health config (health_probe env);
          self1 = self\<lparr>health_status := health_ok\<rparr>
      in case getitem (endpoints config) ''health'' of
           Inl e \<Rightarrow> \<lparr>final = self1, emitted = [], logged = [], raised = Some e\<rparr>
         | Inr health_endpoint \<Rightarrow>
             let first = \<lparr>endpoint = health_endpoint, response_time = health_response_time,
                          status_code = (if health_ok then 200 else 500),
                          success = health_ok, timestamp = health_sample_now env\<rparr>;
                 more = map (\<lambda>i. perform_request health_endpoint ''GET'' None (probes env i))
                          [0..<nat (samples_per_check config - 1)]
             in case those more of
                  None \<Rightarrow> \<lparr>final = self1, emitted = [], logged = [], raised = Some AttributeError\<rparr>
                | Some rest \<Rightarrow>
                    (case calculate_metrics self1 (metrics_now env) (first # rest) of
                       Inl e \<Rightarrow> \<lparr>final = self1, emitted = [], logged = [], raised = Some e\<rparr>
                     | Inr (metrics, self2) \<Rightarrow>
                         let self3 = self2\<lparr>metrics_history := metrics_history self2 @ [metrics]\<rparr>
                         in case check_thresholds config metrics of
                              Inl e \<Rightarrow> \<lparr>final = self3, emitted = [], logged = [], raised = Some e\<rparr>
                            | Inr alerts' \<Rightarrow>
                                let (fired, self4) = gate_alerts config (alert_now env) 0 self3 alerts'
                                in case log_metrics config metrics of
                                     Inl e \<Rightarrow> \<lparr>final = self4, emitted = fired, logged = [],
                                               raised = Some e\<rparr>
                                   | Inr records \<Rightarrow>
                                       (case inference_records config env of
                                          Inl e \<Rightarrow> \<lparr>final = self4, emitted = fired,
                                                    logged = records, raised = Some e\<rparr>
                                        | Inr extra \<Rightarrow>
                                            \<lparr>final = cleanup_old_data (cleanup_now env) self4,
                                             emitted = fired, logged = records @ extra,
                                             raised = None\<rparr>)))"

section \<open>The loop: \<^verbatim>\<open>start_monitoring\<close>\<close>

text \<open>
  The \<^verbatim>\<open>while True\<close> loop sits inside the \<^verbatim>\<open>try\<close>, so an exception of a cycle ends it.
  The list holds the environments of the cycles reached before the operator's interrupt.
\<close>

fun start_monitoring :: "Config \<Rightarrow> CycleEnv list \<Rightarrow> ServiceMonitor \<Rightarrow> ServiceMonitor" where
  "start_monitoring config [] self = self"
| "start_monitoring config (env # envs) self =
     (let r = monitoring_cycle config env self
      in case raised r of
           Some e \<Rightarrow> final r
         | None \<Rightarrow> start_monitoring config envs (final r))"

section \<open>Notions used in the statements\<close>

text \<open>The locals \<^verbatim>\<open>failed_count\<close> and \<^verbatim>\<open>response_times\<close> of \<^verbatim>\<open>calculate_metrics\<close>.\<close>

definition failed_count :: "RequestMetrics list \<Rightarrow> int" where
  "failed_count requests = int (length (filter (\<lambda>r. \<not> success r) requests))"

definition successful_times :: "RequestMetrics list \<Rightarrow> real list" where
  "successful_times requests = map response_time (filter success requests)"

text \<open>The value of the monitor's counter once \<^verbatim>\<open>calculate_metrics\<close> has returned.\<close>

definition counter_after :: "ServiceMonitor \<Rightarrow> datetime \<Rightarrow> RequestMetrics list \<Rightarrow> error + int" where
  "counter_after self now requests =
     map_sum id (\<lambda>(m, self'). consecutive_failures self') (calculate_metrics self now requests)"

text \<open>A sample of the health endpoint, as \<^verbatim>\<open>monitoring_cycle\<close> builds its first one.\<close>

definition probe_sample :: "real \<Rightarrow> bool \<Rightarrow> RequestMetrics" where
  "probe_sample latency ok =
     \<lparr>endpoint = ''/health'', response_time = latency,
      status_code = (if ok then 200 else 500), success = ok, timestamp = 0\<rparr>"

text \<open>Every table of the thresholds has both of its keys.\<close>

definition thresholds_complete :: "Config \<Rightarrow> bool" where
  "thresholds_complete config =
     (let th = thresholds config in
      response_time_ms th ''critical'' \<noteq> None \<and> response_time_ms th ''warning'' \<noteq> None \<and>
      p95_latency_ms th ''critical'' \<noteq> None \<and> p95_latency_ms th ''warning'' \<noteq> None \<and>
      error_rate_percent th ''critical'' \<noteq> None \<and> error_rate_percent th ''warning'' \<noteq> None \<and>
      th_consecutive_failures th ''critical'' \<noteq> None \<and>
      th_consecutive_failures th ''warning'' \<noteq> None)"

text \<open>The default values of the dataclasses in \<^verbatim>\<open>config.py\<close>.\<close>

definition default_thresholds :: ThresholdsConfig where
  "default_thresholds =
     \<lparr>response_time_ms = [''warning'' \<mapsto> 2000, ''critical'' \<mapsto> 5000],
      p95_latency_ms = [''warning'' \<mapsto> 3000, ''critical'' \<mapsto> 6000],
      error_rate_percent = [''warning'' \<mapsto> 10, ''critical'' \<mapsto> 25],
      th_consecutive_failures = [''warning'' \<mapsto> 3, ''critical'' \<mapsto> 5]\<rparr>"

definition default_config :: Config where
  "default_config =
     \<lparr>endpoints = [''health'' \<mapsto> ''/health'', ''predict'' \<mapsto> ''/predict''],
      samples_per_check = 3,
      inference_test_interval_minutes = 5,
      inference_test_enabled = True,
      thresholds = default_thresholds,
      alerts = \<lparr>enabled = True, cooldown_minutes = 5\<rparr>\<rparr>"

text \<open>A batch of twenty samples, eleven of them failed.\<close>

definition mixed_batch :: "RequestMetrics list" where
  "mixed_batch = replicate 11 (probe_sample 30 False) @ replicate 9 (probe_sample 10 True)"

text \<open>Snapshots used as concrete inputs.\<close>

definition slow_metrics :: ServiceMetrics where
  "slow_metrics =
     \<lparr>m_timestamp = 7, response_time_avg = 3100, response_time_p95 = 9000,
      error_rate = 0, total_requests = 3, successful_requests = 3,
      failed_requests = 0, m_consecutive_failures = 5, m_health_status = True\<rparr>"

definition unhealthy_metrics :: ServiceMetrics where
  "unhealthy_metrics =
     \<lparr>m_timestamp = 7, response_time_avg = 120, response_time_p95 = 150,
      error_rate = 0, total_requests = 3, successful_requests = 3,
      failed_requests = 0, m_consecutive_failures = 0, m_health_status = False\<rparr>"

text \<open>Monitors and histories used as concrete inputs.\<close>

definition fired_at :: "datetime \<Rightarrow> ServiceMonitor" where
  "fired_at t = init_monitor\<lparr>last_alert_time := [''p95_latency_critical'' \<mapsto> t]\<rparr>"

definition snapshot_at :: "datetime \<Rightarrow> ServiceMetrics" where
  "snapshot_at t = slow_metrics\<lparr>m_timestamp := t\<rparr>"

definition sample_at :: "datetime \<Rightarrow> RequestMetrics" where
  "sample_at t = (probe_sample 100 True)\<lparr>timestamp := t\<rparr>"

definition aged_monitor :: ServiceMonitor where
  "aged_monitor =
     init_monitor\<lparr>request_history := [sample_at 999, sample_at 1000, sample_at 1001],
                  metrics_history := [snapshot_at 1000, snapshot_at 1001, snapshot_at 5000]\<rparr>"

definition slow_healthy_metrics :: ServiceMetrics where
  "slow_healthy_metrics =
     \<lparr>m_timestamp = 7, response_time_avg = 6000, response_time_p95 = 6500,
      error_rate = 0, total_requests = 3, successful_requests = 3,
      failed_requests = 0, m_consecutive_failures = 0, m_health_status = True\<rparr>"

text \<open>Probes and the environment of a cycle used as concrete inputs.\<close>

definition answered_probe :: ProbeResult where
  "answered_probe = \<lparr>outcome = Response 200, start_time = 10, end_time = 10.05, observed_at = 7\<rparr>"

definition healthy_env :: CycleEnv where
  "healthy_env =
     \<lparr>health_probe = answered_probe, health_sample_now = 8,
      probes = (\<lambda>i. answered_probe), metrics_now = 9, alert_now = (\<lambda>i. 10),
      current_minute = 3, inference_result = (True, 120), cleanup_now = 11\<rparr>"

section \<open>Properties of the rounding\<close>

lemma round_half_even_error: "\<bar>of_int (round_half_even x) - x\<bar> \<le> 1 / 2"
proof -
  define k where "k = \<lfloor>x\<rfloor>"
  have lo: "of_int k \<le> x" and hi: "x < of_int k + 1"
    unfolding k_def by linarith+
  have "round_half_even x =
     (if x - of_int k < 1 / 2 then k
      else if x - of_int k > 1 / 2 then k + 1
      else if even k then k else k + 1)"
    by (simp add: round_half_even_def k_def Let_def)
  then show ?thesis
    using lo hi by (auto split: if_splits)
qed

lemma ilog2_bounds:
  assumes "0 < x"
  shows "2 powi ilog2 x \<le> x" and "x < 2 powi (ilog2 x + 1)"
proof -
  obtain p q where pq: "quotient_of x = (p, q)" by (cases "quotient_of x")
  then have q: "0 < q" and x: "x = of_int p / of_int q"
    by (simp_all add: quotient_of_denom_pos quotient_of_div)
  with assms have p: "0 < p"
    by (simp add: zero_less_divide_iff)
  define d where "d = bitlen p - bitlen q"
  have il: "ilog2 x = (if 2 powi d \<le> x then d else d - 1)"
    by (simp add: ilog2_def pq d_def Let_def)
  have bp: "1 \<le> bitlen p" and bq: "1 \<le> bitlen q"
    using p q by (simp_all add: bitlen_alt_def)
  have plo: "(2::rat) powi (bitlen p - 1) \<le> of_int p" and phi: "of_int p < (2::rat) powi bitlen p"
  proof -
    from bitlen_bounds [OF p] have "2 ^ nat (bitlen p - 1) \<le> p" "p < 2 ^ nat (bitlen p)" by simp_all
    then have "(of_int (2 ^ nat (bitlen p - 1)) :: rat) \<le> of_int p"
      "(of_int p :: rat) < of_int (2 ^ nat (bitlen p))"
      by (simp_all only: of_int_le_iff of_int_less_iff)
    then show "(2::rat) powi (bitlen p - 1) \<le> of_int p" "of_int p < (2::rat) powi bitlen p"
      using bp by (simp_all add: power_int_def)
  qed
  have qlo: "(2::rat) powi (bitlen q - 1) \<le> of_int q" and qhi: "of_int q < (2::rat) powi bitlen q"
  proof -
    from bitlen_bounds [OF q] have "2 ^ nat (bitlen q - 1) \<le> q" "q < 2 ^ nat (bitlen q)" by simp_all
    then have "(of_int (2 ^ nat (bitlen q - 1)) :: rat) \<le> of_int q"
      "(of_int q :: rat) < of_int (2 ^ nat (bitlen q))"
      by (simp_all only: of_int_le_iff of_int_less_iff)
    then show "(2::rat) powi (bitlen q - 1) \<le> of_int q" "of_int q < (2::rat) powi bitlen q"
      using bq by (simp_all add: power_int_def)
  qed
  have qpos: "(0::rat) < of_int q" using q by simp
  have lower: "(2::rat) powi (d - 1) < x"
  proof -
    have "(2::rat) powi (d - 1) * of_int q < 2 powi (d - 1) * 2 powi bitlen q"
      using qhi by (simp add: mult_strict_left_mono)
    also have "\<dots> = 2 powi (bitlen p - 1)"
      by (simp add: d_def flip: power_int_add)
    also have "\<dots> \<le> of_int p" by (rule plo)
    finally show ?thesis
      using qpos by (simp add: x pos_less_divide_eq)
  qed
  have upper: "x < (2::rat) powi (d + 1)"
  proof -
    have "of_int p < (2::rat) powi bitlen p" by (rule phi)
    also have "\<dots> = 2 powi (d + 1) * 2 powi (bitlen q - 1)"
      by (simp add: d_def flip: power_int_add)
    also have "\<dots> \<le> 2 powi (d + 1) * of_int q"
      using qlo by (simp add: mult_left_mono)
    finally show ?thesis
      using qpos by (simp add: x pos_divide_less_eq)
  qed
  show "2 powi ilog2 x \<le> x"
    using lower by (simp add: il)
  show "x < 2 powi (ilog2 x + 1)"
    using upper by (auto simp: il not_le)
qed

text \<open>Above the subnormal range the relative error of a rounding is at most \<open>2\<^sup>-\<^sup>5\<^sup>3\<close>.\<close>

lemma round_double_error:
  assumes "2 powi (- 1022) \<le> x"
  shows "\<bar>round_double x - x\<bar> \<le> x / 2 ^ 53"
proof -
  have xpos: "0 < x"
    using assms zero_less_power_int [of "2::rat" "- 1022"] by linarith
  define e where "e = max (ilog2 x) (- 1022)"
  define ulp :: rat where "ulp = 2 powi (e - 52)"
  have rd: "round_double x = of_int (round_half_even (x / ulp)) * ulp"
    using xpos by (simp add: round_double_def Let_def e_def ulp_def)
  have upos: "0 < ulp" by (simp add: ulp_def)
  have ex: "2 powi e \<le> x"
    using ilog2_bounds(1) [OF xpos] assms by (simp add: e_def max_def)
  have "\<bar>of_int (round_half_even (x / ulp)) - x / ulp\<bar> \<le> 1 / 2"
    by (rule round_half_even_error)
  then have "\<bar>of_int (round_half_even (x / ulp)) - x / ulp\<bar> * ulp \<le> 1 / 2 * ulp"
    using upos by (simp add: mult_right_mono)
  moreover have "\<bar>of_int (round_half_even (x / ulp)) - x / ulp\<bar> * ulp =
      \<bar>of_int (round_half_even (x / ulp)) * ulp - x\<bar>"
  proof -
    have "(of_int (round_half_even (x / ulp)) - x / ulp) * ulp =
        of_int (round_half_even (x / ulp)) * ulp - x"
      using upos by (simp add: left_diff_distrib)
    then have "\<bar>of_int (round_half_even (x / ulp)) * ulp - x\<bar> =
        \<bar>of_int (round_half_even (x / ulp)) - x / ulp\<bar> * \<bar>ulp\<bar>"
      by (simp only: abs_mult [symmetric])
    then show ?thesis using upos by simp
  qed
  ultimately have "\<bar>round_double x - x\<bar> \<le> ulp / 2"
    by (simp add: rd)
  also have "ulp / 2 = 2 powi e / 2 ^ 53"
    by (simp add: ulp_def power_int_diff)
  also have "\<dots> \<le> x / 2 ^ 53"
    using ex by (simp add: divide_right_mono)
  finally show ?thesis .
qed

lemma round_double_zero: "round_double 0 = 0"
  by (simp add: round_double_def)

text \<open>The two roundings of a percentage together stay within \<open>2\<^sup>-\<^sup>5\<^sup>1\<close> of it.\<close>

lemma percent_accuracy:
  fixes f t :: int
  assumes f: "0 \<le> f" and t: "0 < t" and small: "t < 2 ^ 1022"
  shows "\<bar>round_double (round_double (of_int f / of_int t) * 100) - of_int f / of_int t * 100\<bar>
           \<le> of_int f / of_int t * 100 / 2 ^ 51"
proof (cases "f = 0")
  case True
  then show ?thesis by (simp add: round_double_zero)
next
  case False
  define x :: rat where "x = of_int f / of_int t"
  define y where "y = round_double x"
  define z where "z = round_double (y * 100)"
  have tpos: "(0::rat) < of_int t" using t by simp
  have "(1::rat) \<le> of_int f" using f False by (simp add: int_one_le_iff_zero_less)
  moreover have "(of_int t :: rat) \<le> 2 ^ 1022"
  proof -
    have "(of_int t :: rat) \<le> of_int (2 ^ 1022)" using small by (simp only: of_int_le_iff)
    then show ?thesis by simp
  qed
  ultimately have "1 / 2 ^ 1022 \<le> x"
    unfolding x_def using tpos by (simp add: frac_le)
  then have xlow: "2 powi (- 1022) \<le> x"
    by (simp add: power_int_minus inverse_eq_divide)
  then have xpos: "0 < x"
    using zero_less_power_int [of "2::rat" "- 1022"] by linarith
  define u :: rat where "u = 1 / 2 ^ 53"
  define w where "w = x * u"
  have u: "0 < u" "u \<le> 1 / 100"
    by (simp_all add: u_def)
  have w: "0 < w" "w * 100 \<le> x"
    using xpos u mult_left_mono [of u "1 / 100" x] by (simp_all add: w_def)
  have wu: "w * u \<le> w"
    using w(1) u mult_left_mono [of u 1 w] by simp
  have e1: "\<bar>y - x\<bar> \<le> w"
    using round_double_error [OF xlow] by (simp add: y_def w_def u_def)
  then have ylow: "x - w \<le> y" and yhigh: "y \<le> x + w"
    by linarith+
  have "2 powi (- 1022) \<le> y * 100"
    using xlow ylow w by linarith
  then have "\<bar>z - y * 100\<bar> \<le> y * 100 / 2 ^ 53"
    unfolding z_def by (rule round_double_error)
  then have e2: "\<bar>z - y * 100\<bar> \<le> y * u * 100"
    by (simp add: u_def)
  have "y * u \<le> (x + w) * u"
    using yhigh u(1) by (simp add: mult_right_mono)
  then have "y * u \<le> w + w * u"
    by (simp add: w_def algebra_simps)
  with wu have yu: "y * u \<le> 2 * w" by linarith
  have "\<bar>z - x * 100\<bar> \<le> 4 * w * 100"
    using e1 e2 yu by linarith
  also have "4 * w * 100 = x * 100 / 2 ^ 51"
    by (simp add: w_def u_def)
  finally show ?thesis
    by (simp add: x_def y_def z_def)
qed

text \<open>Percentages of the batches used below.\<close>

lemma round_double_values:
  "round_double (round_double (2 / 3) * 100) = 2345624805922133 / 35184372088832"
  "round_double (round_double 1 * 100) = 100"
  "round_double (round_double (1 / 4) * 100) = 25"
  "round_double (round_double (11 / 20) * 100) = 7740561859543041 / 140737488355328"
  by code_simp+

lemma round_double_values_real:
  "real_of_rat (round_double (round_double (2 / 3) * 100)) = 2345624805922133 / 35184372088832"
  "real_of_rat (round_double (round_double 1 * 100)) = 100"
  "real_of_rat (round_double (round_double (1 / 4) * 100)) = 25"
  "real_of_rat (round_double (round_double (11 / 20) * 100)) =
     7740561859543041 / 140737488355328"
  by (simp_all add: round_double_values of_rat_divide)

section \<open>Properties of the aggregation\<close>


lemma p95_index_div: "p95_index n = 19 * n div 20"
proof -
  have "0.95 * real n = real_of_int (19 * int n) / real_of_int 20"
    by simp
  then have "\<lfloor>0.95 * real n\<rfloor> = (19 * int n) div 20"
    by (simp only: floor_divide_of_int_eq)
  then have "p95_index n = nat ((19 * int n) div 20)"
    by (simp add: p95_index_def)
  also have "\<dots> = 19 * n div 20"
    by (simp add: nat_div_distrib nat_mult_distrib)
  finally show ?thesis .
qed

lemma p95_index_less: "0 < n \<Longrightarrow> p95_index n < n"
  by (simp add: p95_index_div)

lemma p95_latency_Inr:
  "xs \<noteq> [] \<Longrightarrow> p95_latency xs = Inr (sort xs ! p95_index (length xs))"
  unfolding p95_latency_def by (simp add: Let_def p95_index_less)

lemma calculate_metrics_nonempty:
  assumes "requests \<noteq> []"
  shows "calculate_metrics self now requests =
     Inr (\<lparr>m_timestamp = now,
           response_time_avg =
             (if successful_times requests \<noteq> [] then mean (successful_times requests) else 0),
           response_time_p95 =
             (if successful_times requests \<noteq> []
              then sort (successful_times requests) ! p95_index (length (successful_times requests))
              else 0),
           error_rate =
             real_of_rat
               (round_double
                  (round_double (of_int (failed_count requests) / of_int (int (length requests)))
                   * 100)),
           total_requests = int (length requests),
           successful_requests = int (length (filter success requests)),
           failed_requests = failed_count requests,
           m_consecutive_failures =
             (if failed_count requests > 0
              then consecutive_failures self + failed_count requests else 0),
           m_health_status = health_status self\<rparr>,
          self\<lparr>consecutive_failures :=
             (if failed_count requests > 0
              then consecutive_failures self + failed_count requests else 0)\<rparr>)"
proof (cases "successful_times requests = []")
  case True
  with assms show ?thesis
    unfolding calculate_metrics_def failed_count_def successful_times_def
    by (simp add: Let_def)
next
  case False
  with assms show ?thesis
    unfolding calculate_metrics_def failed_count_def successful_times_def
    by (simp add: Let_def p95_latency_Inr)
qed


lemma calculate_metrics_empty:
  "calculate_metrics self now [] =
     Inr (\<lparr>m_timestamp = now, response_time_avg = 0, response_time_p95 = 0,
           error_rate = 100, total_requests = 0, successful_requests = 0,
           failed_requests = 0,
           m_consecutive_failures = consecutive_failures self,
           m_health_status = health_status self\<rparr>, self)"
  by (simp add: calculate_metrics_def)

text \<open>
  Claim C1, as the code has it. For a batch that is not empty the monitor's counter
  becomes the prior counter plus the number of failed samples when there is a failed
  sample, and 0 when there is none. For the empty batch \<^verbatim>\<open>calculate_metrics\<close> returns
  early and leaves the counter as it was. In both cases the snapshot's
  \<open>consecutive_failures\<close> field is the counter after the call.
\<close>

theorem consecutive_failures_update:
  "\<exists>m self'. calculate_metrics self now requests = Inr (m, self') \<and>
     failed_requests m = int (length (filter (\<lambda>r. \<not> success r) requests)) \<and>
     consecutive_failures self' =
       (if requests = [] then consecutive_failures self
        else if failed_requests m > 0 then consecutive_failures self + failed_requests m
        else 0) \<and>
     m_consecutive_failures m = consecutive_failures self'"
proof (cases "requests = []")
  case True
  then show ?thesis by (simp add: calculate_metrics_empty)
next
  case False
  then show ?thesis
    by (simp add: calculate_metrics_nonempty failed_count_def)
qed

text \<open>
  On a prior counter of 2: a batch with two failures gives 4, a batch without a failure
  gives 0, and the empty batch leaves 2.
\<close>

theorem consecutive_failures_update_witness:
  "calculate_metrics (init_monitor\<lparr>consecutive_failures := 2\<rparr>) 7
       [probe_sample 100 True, probe_sample 30 False, probe_sample 40 False] =
     Inr (\<lparr>m_timestamp = 7, response_time_avg = 100, response_time_p95 = 100,
           error_rate = 2345624805922133 / 35184372088832, total_requests = 3, successful_requests = 1,
           failed_requests = 2, m_consecutive_failures = 4, m_health_status = False\<rparr>,
          init_monitor\<lparr>consecutive_failures := 4\<rparr>) \<and>
   calculate_metrics (init_monitor\<lparr>consecutive_failures := 2\<rparr>) 7 [probe_sample 100 True] =
     Inr (\<lparr>m_timestamp = 7, response_time_avg = 100, response_time_p95 = 100,
           error_rate = 0, total_requests = 1, successful_requests = 1,
           failed_requests = 0, m_consecutive_failures = 0, m_health_status = False\<rparr>,
          init_monitor\<lparr>consecutive_failures := 0\<rparr>) \<and>
   calculate_metrics (init_monitor\<lparr>consecutive_failures := 2\<rparr>) 7 [] =
     Inr (\<lparr>m_timestamp = 7, response_time_avg = 0, response_time_p95 = 0,
           error_rate = 100, total_requests = 0, successful_requests = 0,
           failed_requests = 0, m_consecutive_failures = 2, m_health_status = False\<rparr>,
          init_monitor\<lparr>consecutive_failures := 2\<rparr>)"
  using consecutive_failures_update
    [of "init_monitor\<lparr>consecutive_failures := 2\<rparr>" 7
        "[probe_sample 100 True, probe_sample 30 False, probe_sample 40 False]"]
    consecutive_failures_update
    [of "init_monitor\<lparr>consecutive_failures := 2\<rparr>" 7 "[probe_sample 100 True]"]
    consecutive_failures_update [of "init_monitor\<lparr>consecutive_failures := 2\<rparr>" 7 "[]"]
  by (simp add: calculate_metrics_nonempty calculate_metrics_empty failed_count_def
      successful_times_def probe_sample_def mean_def p95_index_div init_monitor_def
      round_double_values_real round_double_zero)

text \<open>
  The statement of C1 for the empty batch, which has no failure: the counter would be 0.
  On a prior counter of 2 it stays 2.
\<close>

theorem consecutive_failures_empty_batch_counterexample:
  "\<not> counter_after (init_monitor\<lparr>consecutive_failures := 2\<rparr>) 7 [] =
       Inr (if failed_count [] > 0 then 2 + failed_count [] else 0)"
  by (simp add: counter_after_def calculate_metrics_empty failed_count_def init_monitor_def)



text \<open>
  Claim C4, as the code has it. The error rate of the snapshot is 100 when the batch has no
  sample. Otherwise it is the double that \<^verbatim>\<open>failed_count / total_requests * 100\<close> yields:
  the number of failed samples divided by the number of samples and rounded, then
  multiplied by 100 and rounded again. For fewer than \<open>2\<^sup>1\<^sup>0\<^sup>2\<^sup>2\<close> samples it differs from
  the exact percentage by at most that percentage divided by \<open>2\<^sup>5\<^sup>1\<close>.
\<close>

theorem error_rate_value:
  "\<exists>m self'. calculate_metrics self now requests = Inr (m, self') \<and>
     total_requests m = int (length requests) \<and>
     failed_requests m = int (length (filter (\<lambda>r. \<not> success r) requests)) \<and>
     error_rate m =
       (if total_requests m = 0 then 100
        else real_of_rat
               (round_double
                  (round_double (of_int (failed_requests m) / of_int (total_requests m)) * 100))) \<and>
     (0 < total_requests m \<and> total_requests m < 2 ^ 1022 \<longrightarrow>
        \<bar>error_rate m - real_of_int (failed_requests m) / real_of_int (total_requests m) * 100\<bar>
          \<le> real_of_int (failed_requests m) / real_of_int (total_requests m) * 100 / 2 ^ 51)"
proof (cases "requests = []")
  case True
  then show ?thesis by (simp add: calculate_metrics_empty)
next
  case False
  define f where "f = failed_count requests"
  define t where "t = int (length requests)"
  define z where "z = round_double (round_double (of_int f / of_int t) * 100)"
  have f: "0 \<le> f" and t: "0 < t"
    using False by (simp_all add: f_def t_def failed_count_def)
  have acc: "\<bar>real_of_rat z - real_of_int f / real_of_int t * 100\<bar>
      \<le> real_of_int f / real_of_int t * 100 / 2 ^ 51" if small: "t < 2 ^ 1022"
  proof -
    define x :: rat where "x = of_int f / of_int t * 100"
    from percent_accuracy [OF f t small] have "\<bar>z - x\<bar> \<le> x / 2 ^ 51"
      by (simp add: z_def x_def)
    then have "z - x \<le> x / 2 ^ 51" and "x - z \<le> x / 2 ^ 51"
      by linarith+
    then have "real_of_rat (z - x) \<le> real_of_rat (x / 2 ^ 51)"
      and "real_of_rat (x - z) \<le> real_of_rat (x / 2 ^ 51)"
      by (simp_all only: of_rat_less_eq)
    moreover have "real_of_rat (x / 2 ^ 51) = real_of_rat x / 2 ^ 51"
      by (simp add: of_rat_divide of_rat_power)
    ultimately have "real_of_rat z - real_of_rat x \<le> real_of_rat x / 2 ^ 51"
      and "real_of_rat x - real_of_rat z \<le> real_of_rat x / 2 ^ 51"
      by (simp_all only: of_rat_diff)
    then have "\<bar>real_of_rat z - real_of_rat x\<bar> \<le> real_of_rat x / 2 ^ 51"
      by linarith
    moreover have "real_of_rat x = real_of_int f / real_of_int t * 100"
      by (simp add: x_def of_rat_mult of_rat_divide)
    ultimately show ?thesis by simp
  qed
  have "calculate_metrics self now requests =
     Inr (\<lparr>m_timestamp = now,
           response_time_avg =
             (if successful_times requests \<noteq> [] then mean (successful_times requests) else 0),
           response_time_p95 =
             (if successful_times requests \<noteq> []
              then sort (successful_times requests) ! p95_index (length (successful_times requests))
              else 0),
           error_rate = real_of_rat z,
           total_requests = t,
           successful_requests = int (length (filter success requests)),
           failed_requests = f,
           m_consecutive_failures =
             (if f > 0 then consecutive_failures self + f else 0),
           m_health_status = health_status self\<rparr>,
          self\<lparr>consecutive_failures :=
             (if f > 0 then consecutive_failures self + f else 0)\<rparr>)"
    unfolding z_def f_def t_def by (rule calculate_metrics_nonempty [OF False])
  moreover have "f = int (length (filter (\<lambda>r. \<not> success r) requests))"
    by (simp add: f_def failed_count_def)
  ultimately show ?thesis
    using t acc by (auto simp: z_def t_def)
qed

text \<open>
  The empty batch; a batch of four samples with one failure, where both roundings are
  exact; and eleven failures of twenty, where the result is the double next above 55.
\<close>

theorem error_rate_value_witness:
  "error_rate (fst (projr (calculate_metrics init_monitor 7 []))) = 100 \<and>
   error_rate (fst (projr (calculate_metrics init_monitor 7
       [probe_sample 10 True, probe_sample 30 False, probe_sample 40 True, probe_sample 5 True])))
     = 25 \<and>
   total_requests (fst (projr (calculate_metrics init_monitor 7 mixed_batch))) = 20 \<and>
   (20::int) < 2 ^ 1022 \<and>
   error_rate (fst (projr (calculate_metrics init_monitor 7 mixed_batch))) =
     7740561859543041 / 140737488355328"
  using error_rate_value [of init_monitor 7 "[]"]
    error_rate_value [of init_monitor 7
       "[probe_sample 10 True, probe_sample 30 False, probe_sample 40 True, probe_sample 5 True]"]
    error_rate_value [of init_monitor 7 mixed_batch]
  by (simp add: calculate_metrics_nonempty calculate_metrics_empty failed_count_def
      mixed_batch_def probe_sample_def round_double_values_real round_double_zero)

text \<open>
  The statement of C4 has the error rate equal the percentage exactly. For eleven failures
  of twenty the percentage is 55, and the code's double is not.
\<close>

theorem error_rate_rounding_counterexample:
  "failed_requests (fst (projr (calculate_metrics init_monitor 7 mixed_batch))) = 11 \<and>
   total_requests (fst (projr (calculate_metrics init_monitor 7 mixed_batch))) = 20 \<and>
   error_rate (fst (projr (calculate_metrics init_monitor 7 mixed_batch))) \<noteq> 11 / 20 * 100"
  by (simp add: calculate_metrics_nonempty failed_count_def mixed_batch_def probe_sample_def
      round_double_values_real)

section \<open>Properties of the threshold evaluation\<close>


lemma getitem_Some: "d k = Some v \<Longrightarrow> getitem d k = Inr v"
  by (simp add: getitem_def)

lemma bind_err_Inr [simp]: "bind_err (Inr v) f = f v"
  by (simp add: bind_err_def)

lemma bind_err_Inl [simp]: "bind_err (Inl e) f = Inl e"
  by (simp add: bind_err_def)

lemma response_time_alerts_eq:
  assumes "response_time_ms (thresholds config) ''critical'' = Some c"
      and "response_time_ms (thresholds config) ''warning'' = Some w"
  shows "response_time_alerts config metrics =
     Inr (if response_time_avg metrics > c then
            [\<lparr>alert_type = ''response_time'', level = ''critical'',
              message = CriticalResponseTime (response_time_avg metrics),
              alert_value = response_time_avg metrics, threshold = c\<rparr>]
          else if response_time_avg metrics > w then
            [\<lparr>alert_type = ''response_time'', level = ''warning'',
              message = HighResponseTime (response_time_avg metrics),
              alert_value = response_time_avg metrics, threshold = w\<rparr>]
          else [])"
  using assms by (simp add: response_time_alerts_def getitem_Some)

lemma p95_latency_alerts_eq:
  assumes "p95_latency_ms (thresholds config) ''critical'' = Some c"
      and "p95_latency_ms (thresholds config) ''warning'' = Some w"
  shows "p95_latency_alerts config metrics =
     Inr (if response_time_p95 metrics > c then
            [\<lparr>alert_type = ''p95_latency'', level = ''critical'',
              message = CriticalP95Latency (response_time_p95 metrics),
              alert_value = response_time_p95 metrics, threshold = c\<rparr>]
          else if response_time_p95 metrics > w then
            [\<lparr>alert_type = ''p95_latency'', level = ''warning'',
              message = HighP95Latency (response_time_p95 metrics),
              alert_value = response_time_p95 metrics, threshold = w\<rparr>]
          else [])"
  using assms by (simp add: p95_latency_alerts_def getitem_Some)

lemma error_rate_alerts_eq:
  assumes "error_rate_percent (thresholds config) ''critical'' = Some c"
      and "error_rate_percent (thresholds config) ''warning'' = Some w"
  shows "error_rate_alerts config metrics =
     Inr (if error_rate metrics > c then
            [\<lparr>alert_type = ''error_rate'', level = ''critical'',
              message = CriticalErrorRate (error_rate metrics),
              alert_value = error_rate metrics, threshold = c\<rparr>]
          else if error_rate metrics > w then
            [\<lparr>alert_type = ''error_rate'', level = ''warning'',
              message = HighErrorRate (error_rate metrics),
              alert_value = error_rate metrics, threshold = w\<rparr>]
          else [])"
  using assms by (simp add: error_rate_alerts_def getitem_Some)

lemma consecutive_failures_alerts_eq:
  assumes "th_consecutive_failures (thresholds config) ''critical'' = Some c"
      and "th_consecutive_failures (thresholds config) ''warning'' = Some w"
  shows "consecutive_failures_alerts config metrics =
     Inr (if m_consecutive_failures metrics \<ge> c then
            [\<lparr>alert_type = ''consecutive_failures'', level = ''critical'',
              message = CriticalConsecutiveFailures (m_consecutive_failures metrics),
              alert_value = real_of_int (m_consecutive_failures metrics),
              threshold = real_of_int c\<rparr>]
          else if m_consecutive_failures metrics \<ge> w then
            [\<lparr>alert_type = ''consecutive_failures'', level = ''warning'',
              message = ManyConsecutiveFailures (m_consecutive_failures metrics),
              alert_value = real_of_int (m_consecutive_failures metrics),
              threshold = real_of_int w\<rparr>]
          else [])"
  using assms by (simp add: consecutive_failures_alerts_def getitem_Some)

text \<open>Each block only produces alerts of its own dimension.\<close>

lemma response_time_alerts_type:
  "response_time_alerts config metrics = Inr as \<Longrightarrow> a \<in> set as \<Longrightarrow> alert_type a = ''response_time''"
  by (auto simp: response_time_alerts_def bind_err_def split: sum.splits if_splits)

lemma p95_latency_alerts_type:
  "p95_latency_alerts config metrics = Inr as \<Longrightarrow> a \<in> set as \<Longrightarrow> alert_type a = ''p95_latency''"
  by (auto simp: p95_latency_alerts_def bind_err_def split: sum.splits if_splits)

lemma error_rate_alerts_type:
  "error_rate_alerts config metrics = Inr as \<Longrightarrow> a \<in> set as \<Longrightarrow> alert_type a = ''error_rate''"
  by (auto simp: error_rate_alerts_def bind_err_def split: sum.splits if_splits)

lemma consecutive_failures_alerts_type:
  "consecutive_failures_alerts config metrics = Inr as \<Longrightarrow> a \<in> set as \<Longrightarrow>
     alert_type a = ''consecutive_failures''"
  by (auto simp: consecutive_failures_alerts_def bind_err_def split: sum.splits if_splits)

lemma health_status_alerts_type:
  "a \<in> set (health_status_alerts metrics) \<Longrightarrow> alert_type a = ''health_status''"
  by (auto simp: health_status_alerts_def split: if_splits)

lemma filter_own: "(\<And>a. a \<in> set as \<Longrightarrow> alert_type a = t) \<Longrightarrow> filter (\<lambda>a. alert_type a = t) as = as"
  by (induction as) auto

lemma filter_other:
  "(\<And>a. a \<in> set as \<Longrightarrow> alert_type a = t') \<Longrightarrow> t \<noteq> t' \<Longrightarrow> filter (\<lambda>a. alert_type a = t) as = []"
  by (induction as) auto

lemma check_thresholds_parts:
  assumes "response_time_alerts config metrics = Inr a1"
      and "p95_latency_alerts config metrics = Inr a2"
      and "error_rate_alerts config metrics = Inr a3"
      and "consecutive_failures_alerts config metrics = Inr a4"
  shows "check_thresholds config metrics = Inr (a1 @ a2 @ a3 @ a4 @ health_status_alerts metrics)"
    and "filter (\<lambda>a. alert_type a = ''response_time'') (a1 @ a2 @ a3 @ a4 @ health_status_alerts metrics) = a1"
    and "filter (\<lambda>a. alert_type a = ''p95_latency'') (a1 @ a2 @ a3 @ a4 @ health_status_alerts metrics) = a2"
    and "filter (\<lambda>a. alert_type a = ''error_rate'') (a1 @ a2 @ a3 @ a4 @ health_status_alerts metrics) = a3"
    and "filter (\<lambda>a. alert_type a = ''consecutive_failures'') (a1 @ a2 @ a3 @ a4 @ health_status_alerts metrics) = a4"
    and "filter (\<lambda>a. alert_type a = ''health_status'') (a1 @ a2 @ a3 @ a4 @ health_status_alerts metrics) =
           health_status_alerts metrics"
proof -
  note own = filter_own [OF response_time_alerts_type [OF assms(1)]]
    filter_own [OF p95_latency_alerts_type [OF assms(2)]]
    filter_own [OF error_rate_alerts_type [OF assms(3)]]
    filter_own [OF consecutive_failures_alerts_type [OF assms(4)]]
    filter_own [OF health_status_alerts_type]
  note other = filter_other [OF response_time_alerts_type [OF assms(1)]]
    filter_other [OF p95_latency_alerts_type [OF assms(2)]]
    filter_other [OF error_rate_alerts_type [OF assms(3)]]
    filter_other [OF consecutive_failures_alerts_type [OF assms(4)]]
    filter_other [OF health_status_alerts_type]
  show "check_thresholds config metrics = Inr (a1 @ a2 @ a3 @ a4 @ health_status_alerts metrics)"
    using assms by (simp add: check_thresholds_def)
  show "filter (\<lambda>a. alert_type a = ''response_time'') (a1 @ a2 @ a3 @ a4 @ health_status_alerts metrics) = a1"
    by (simp add: own other)
  show "filter (\<lambda>a. alert_type a = ''p95_latency'') (a1 @ a2 @ a3 @ a4 @ health_status_alerts metrics) = a2"
    by (simp add: own other)
  show "filter (\<lambda>a. alert_type a = ''error_rate'') (a1 @ a2 @ a3 @ a4 @ health_status_alerts metrics) = a3"
    by (simp add: own other)
  show "filter (\<lambda>a. alert_type a = ''consecutive_failures'') (a1 @ a2 @ a3 @ a4 @ health_status_alerts metrics) = a4"
    by (simp add: own other)
  show "filter (\<lambda>a. alert_type a = ''health_status'') (a1 @ a2 @ a3 @ a4 @ health_status_alerts metrics) =
           health_status_alerts metrics"
    by (simp add: own other)
qed

lemma default_lookups:
  "response_time_ms (thresholds default_config) ''critical'' = Some 5000"
  "response_time_ms (thresholds default_config) ''warning'' = Some 2000"
  "p95_latency_ms (thresholds default_config) ''critical'' = Some 6000"
  "p95_latency_ms (thresholds default_config) ''warning'' = Some 3000"
  "error_rate_percent (thresholds default_config) ''critical'' = Some 25"
  "error_rate_percent (thresholds default_config) ''warning'' = Some 10"
  "th_consecutive_failures (thresholds default_config) ''critical'' = Some 5"
  "th_consecutive_failures (thresholds default_config) ''warning'' = Some 3"
  by (simp_all add: default_config_def default_thresholds_def)

lemma thresholds_completeD:
  assumes "thresholds_complete config"
  obtains rt_c rt_w p95_c p95_w er_c er_w cf_c cf_w where
    "response_time_ms (thresholds config) ''critical'' = Some rt_c"
    "response_time_ms (thresholds config) ''warning'' = Some rt_w"
    "p95_latency_ms (thresholds config) ''critical'' = Some p95_c"
    "p95_latency_ms (thresholds config) ''warning'' = Some p95_w"
    "error_rate_percent (thresholds config) ''critical'' = Some er_c"
    "error_rate_percent (thresholds config) ''warning'' = Some er_w"
    "th_consecutive_failures (thresholds config) ''critical'' = Some cf_c"
    "th_consecutive_failures (thresholds config) ''warning'' = Some cf_w"
  using assms unfolding thresholds_complete_def Let_def by blast

text \<open>
  Claim C2. When each threshold table has its two entries, \<^verbatim>\<open>check_thresholds\<close> returns a
  list in which the alerts of each numeric dimension are: the single critical alert when
  the value crosses the critical threshold; otherwise the single warning alert when it
  crosses the warning threshold; otherwise none. Average latency, p95 latency and error
  rate cross a threshold when strictly above it, the consecutive failures when at or
  above it.
\<close>

theorem check_thresholds_precedence:
  assumes "response_time_ms (thresholds config) ''critical'' = Some rt_c"
      and "response_time_ms (thresholds config) ''warning'' = Some rt_w"
      and "p95_latency_ms (thresholds config) ''critical'' = Some p95_c"
      and "p95_latency_ms (thresholds config) ''warning'' = Some p95_w"
      and "error_rate_percent (thresholds config) ''critical'' = Some er_c"
      and "error_rate_percent (thresholds config) ''warning'' = Some er_w"
      and "th_consecutive_failures (thresholds config) ''critical'' = Some cf_c"
      and "th_consecutive_failures (thresholds config) ''warning'' = Some cf_w"
  shows "\<exists>alerts. check_thresholds config metrics = Inr alerts \<and>
     filter (\<lambda>a. alert_type a = ''response_time'') alerts =
       (if response_time_avg metrics > rt_c then
          [\<lparr>alert_type = ''response_time'', level = ''critical'',
            message = CriticalResponseTime (response_time_avg metrics),
            alert_value = response_time_avg metrics, threshold = rt_c\<rparr>]
        else if response_time_avg metrics > rt_w then
          [\<lparr>alert_type = ''response_time'', level = ''warning'',
            message = HighResponseTime (response_time_avg metrics),
            alert_value = response_time_avg metrics, threshold = rt_w\<rparr>]
        else []) \<and>
     filter (\<lambda>a. alert_type a = ''p95_latency'') alerts =
       (if response_time_p95 metrics > p95_c then
          [\<lparr>alert_type = ''p95_latency'', level = ''critical'',
            message = CriticalP95Latency (response_time_p95 metrics),
            alert_value = response_time_p95 metrics, threshold = p95_c\<rparr>]
        else if response_time_p95 metrics > p95_w then
          [\<lparr>alert_type = ''p95_latency'', level = ''warning'',
            message = HighP95Latency (response_time_p95 metrics),
            alert_value = response_time_p95 metrics, threshold = p95_w\<rparr>]
        else []) \<and>
     filter (\<lambda>a. alert_type a = ''error_rate'') alerts =
       (if error_rate metrics > er_c then
          [\<lparr>alert_type = ''error_rate'', level = ''critical'',
            message = CriticalErrorRate (error_rate metrics),
            alert_value = error_rate metrics, threshold = er_c\<rparr>]
        else if error_rate metrics > er_w then
          [\<lparr>alert_type = ''error_rate'', level = ''warning'',
            message = HighErrorRate (error_rate metrics),
            alert_value = error_rate metrics, threshold = er_w\<rparr>]
        else []) \<and>
     filter (\<lambda>a. alert_type a = ''consecutive_failures'') alerts =
       (if m_consecutive_failures metrics \<ge> cf_c then
          [\<lparr>alert_type = ''consecutive_failures'', level = ''critical'',
            message = CriticalConsecutiveFailures (m_consecutive_failures metrics),
            alert_value = real_of_int (m_consecutive_failures metrics),
            threshold = real_of_int cf_c\<rparr>]
        else if m_consecutive_failures metrics \<ge> cf_w then
          [\<lparr>alert_type = ''consecutive_failures'', level = ''warning'',
            message = ManyConsecutiveFailures (m_consecutive_failures metrics),
            alert_value = real_of_int (m_consecutive_failures metrics),
            threshold = real_of_int cf_w\<rparr>]
        else [])"
proof -
  note blocks = response_time_alerts_eq [OF assms(1,2), of metrics]
    p95_latency_alerts_eq [OF assms(3,4), of metrics]
    error_rate_alerts_eq [OF assms(5,6), of metrics]
    consecutive_failures_alerts_eq [OF assms(7,8), of metrics]
  note parts = check_thresholds_parts [OF blocks]
  show ?thesis
    by (rule exI, intro conjI) (rule parts)+
qed

text \<open>
  The default thresholds on a snapshot with average 3100 (warning), p95 9000 (critical),
  error rate 0 (nothing) and 5 consecutive failures (critical, at the threshold).
\<close>

theorem check_thresholds_precedence_witness:
  "check_thresholds default_config slow_metrics =
     Inr [\<lparr>alert_type = ''response_time'', level = ''warning'',
            message = HighResponseTime 3100, alert_value = 3100, threshold = 2000\<rparr>,
          \<lparr>alert_type = ''p95_latency'', level = ''critical'',
            message = CriticalP95Latency 9000, alert_value = 9000, threshold = 6000\<rparr>,
          \<lparr>alert_type = ''consecutive_failures'', level = ''critical'',
            message = CriticalConsecutiveFailures 5, alert_value = 5, threshold = 5\<rparr>]"
  using check_thresholds_precedence [OF default_lookups, of slow_metrics]
  by (simp add: check_thresholds_def response_time_alerts_eq [OF default_lookups(1,2)]
      p95_latency_alerts_eq [OF default_lookups(3,4)]
      error_rate_alerts_eq [OF default_lookups(5,6)]
      consecutive_failures_alerts_eq [OF default_lookups(7,8)]
      health_status_alerts_def slow_metrics_def)

text \<open>
  Claim C6. When each threshold table has its two entries, the alerts of the dimension
  \<open>health_status\<close> that \<^verbatim>\<open>check_thresholds\<close> returns are: for an unhealthy snapshot the one
  critical alert with value 0 and threshold 1, whatever the thresholds and the other
  fields of the snapshot are; for a healthy snapshot none.
\<close>

theorem unhealthy_snapshot_alert:
  assumes "thresholds_complete config"
  shows "\<exists>alerts. check_thresholds config metrics = Inr alerts \<and>
     filter (\<lambda>a. alert_type a = ''health_status'') alerts =
       (if m_health_status metrics then []
        else [\<lparr>alert_type = ''health_status'', level = ''critical'',
               message = ServiceUnavailable, alert_value = 0, threshold = 1\<rparr>])"
proof -
  from assms obtain rt_c rt_w p95_c p95_w er_c er_w cf_c cf_w where l:
    "response_time_ms (thresholds config) ''critical'' = Some rt_c"
    "response_time_ms (thresholds config) ''warning'' = Some rt_w"
    "p95_latency_ms (thresholds config) ''critical'' = Some p95_c"
    "p95_latency_ms (thresholds config) ''warning'' = Some p95_w"
    "error_rate_percent (thresholds config) ''critical'' = Some er_c"
    "error_rate_percent (thresholds config) ''warning'' = Some er_w"
    "th_consecutive_failures (thresholds config) ''critical'' = Some cf_c"
    "th_consecutive_failures (thresholds config) ''warning'' = Some cf_w"
    by (rule thresholds_completeD)
  note blocks = response_time_alerts_eq [OF l(1,2), of metrics]
    p95_latency_alerts_eq [OF l(3,4), of metrics]
    error_rate_alerts_eq [OF l(5,6), of metrics]
    consecutive_failures_alerts_eq [OF l(7,8), of metrics]
  note parts = check_thresholds_parts [OF blocks]
  have "health_status_alerts metrics =
       (if m_health_status metrics then []
        else [\<lparr>alert_type = ''health_status'', level = ''critical'',
               message = ServiceUnavailable, alert_value = 0, threshold = 1\<rparr>])"
    by (simp add: health_status_alerts_def)
  with parts(1,6) show ?thesis by simp
qed

text \<open>An unhealthy snapshot whose other dimensions are below every default threshold.\<close>

theorem unhealthy_snapshot_alert_witness:
  "thresholds_complete default_config \<and>
   check_thresholds default_config unhealthy_metrics =
     Inr [\<lparr>alert_type = ''health_status'', level = ''critical'',
            message = ServiceUnavailable, alert_value = 0, threshold = 1\<rparr>]"
proof -
  have c: "thresholds_complete default_config"
    by (simp add: thresholds_complete_def default_lookups)
  show ?thesis
    using c unhealthy_snapshot_alert [OF c, of unhealthy_metrics]
    by (simp add: check_thresholds_def response_time_alerts_eq [OF default_lookups(1,2)]
      p95_latency_alerts_eq [OF default_lookups(3,4)]
      error_rate_alerts_eq [OF default_lookups(5,6)]
      consecutive_failures_alerts_eq [OF default_lookups(7,8)]
      health_status_alerts_def unhealthy_metrics_def)
qed

section \<open>Properties of the cooldown gate\<close>

text \<open>
  Claim C5. For every key made of a dimension \<open>d\<close> and a severity \<open>s\<close>, and every state the
  earlier calls have left: with alerting disabled the gate answers false and the monitor is
  unchanged; with no entry for the key it answers true and records the current time; with
  an entry less than the cooldown old it answers false and the monitor is unchanged; with
  an entry at least the cooldown old it answers true and records the current time; and a
  call for \<open>(d, s)\<close> leaves the entry of \<open>(d, s')\<close> alone when \<open>s'\<close> differs from \<open>s\<close>.
\<close>

theorem should_alert_gate:
  "(\<not> enabled (alerts config) \<longrightarrow> should_alert config self now d s = (False, self)) \<and>
   (enabled (alerts config) \<and> last_alert_time self (d @ ''_'' @ s) = None \<longrightarrow>
      should_alert config self now d s =
        (True, self\<lparr>last_alert_time := (last_alert_time self)(d @ ''_'' @ s \<mapsto> now)\<rparr>)) \<and>
   (enabled (alerts config) \<and> last_alert_time self (d @ ''_'' @ s) = Some t \<and>
    now - t < cooldown_minutes (alerts config) * 60000000 \<longrightarrow>
      should_alert config self now d s = (False, self)) \<and>
   (enabled (alerts config) \<and> last_alert_time self (d @ ''_'' @ s) = Some t \<and>
    now - t \<ge> cooldown_minutes (alerts config) * 60000000 \<longrightarrow>
      should_alert config self now d s =
        (True, self\<lparr>last_alert_time := (last_alert_time self)(d @ ''_'' @ s \<mapsto> now)\<rparr>)) \<and>
   (s \<noteq> s' \<longrightarrow>
      last_alert_time (snd (should_alert config self now d s)) (d @ ''_'' @ s') =
        last_alert_time self (d @ ''_'' @ s'))"
  by (simp add: should_alert_def timedelta_minutes_def Let_def split: option.split)

text \<open>
  A disabled gate; then, with a cooldown of five minutes, a first firing at 1000, a call one
  microsecond before expiry, a call at expiry, and a warning for the same dimension.
\<close>

theorem should_alert_gate_witness:
  "should_alert (default_config\<lparr>alerts := \<lparr>enabled = False, cooldown_minutes = 5\<rparr>\<rparr>)
       init_monitor 1000 ''p95_latency'' ''critical'' = (False, init_monitor) \<and>
   should_alert default_config init_monitor 1000 ''p95_latency'' ''critical'' = (True, fired_at 1000) \<and>
   should_alert default_config (fired_at 1000) 300000999 ''p95_latency'' ''critical'' =
     (False, fired_at 1000) \<and>
   should_alert default_config (fired_at 1000) 300001000 ''p95_latency'' ''critical'' =
     (True, fired_at 300001000) \<and>
   should_alert default_config (fired_at 1000) 2000 ''p95_latency'' ''warning'' =
     (True, init_monitor\<lparr>last_alert_time :=
        [''p95_latency_critical'' \<mapsto> 1000, ''p95_latency_warning'' \<mapsto> 2000]\<rparr>)"
  using should_alert_gate [of "default_config\<lparr>alerts := \<lparr>enabled = False, cooldown_minutes = 5\<rparr>\<rparr>"
      init_monitor 1000 "''p95_latency''" "''critical''" 0 "''warning''"]
    should_alert_gate [of default_config init_monitor 1000 "''p95_latency''" "''critical''" 0 "''warning''"]
    should_alert_gate [of default_config "fired_at 1000" 300000999 "''p95_latency''" "''critical''" 1000 "''warning''"]
    should_alert_gate [of default_config "fired_at 1000" 300001000 "''p95_latency''" "''critical''" 1000 "''warning''"]
    should_alert_gate [of default_config "fired_at 1000" 2000 "''p95_latency''" "''warning''" 0 "''critical''"]
  by (simp add: default_config_def fired_at_def init_monitor_def)

section \<open>Properties of the pruning\<close>

text \<open>
  Claim C9. After \<^verbatim>\<open>_cleanup_old_data\<close> at time \<open>now\<close>, every sample and every snapshot that
  is kept has a timestamp strictly above \<open>now\<close> minus one hour, and an entry whose timestamp
  is \<open>now\<close> minus one hour exactly is no longer in its list.
\<close>

theorem cleanup_retains_only_recent:
  "(\<forall>r \<in> set (request_history (cleanup_old_data now self)). timestamp r > now - 3600000000) \<and>
   (\<forall>m \<in> set (metrics_history (cleanup_old_data now self)). m_timestamp m > now - 3600000000) \<and>
   (\<forall>r \<in> set (request_history self).
      timestamp r = now - 3600000000 \<longrightarrow> r \<notin> set (request_history (cleanup_old_data now self))) \<and>
   (\<forall>m \<in> set (metrics_history self).
      m_timestamp m = now - 3600000000 \<longrightarrow> m \<notin> set (metrics_history (cleanup_old_data now self)))"
  by (simp add: cleanup_old_data_def timedelta_hours_def Let_def)

text \<open>
  Samples at 999, 1000 and 1001 and snapshots at 1000, 1001 and 5000, pruned one hour
  after 1000: the entries at 1000 go, those at 1001 stay.
\<close>

theorem cleanup_retains_only_recent_witness:
  "cleanup_old_data 3600001000 aged_monitor =
     init_monitor\<lparr>request_history := [sample_at 1001],
                  metrics_history := [snapshot_at 1001, snapshot_at 5000]\<rparr> \<and>
   sample_at 1000 \<in> set (request_history aged_monitor) \<and>
   timestamp (sample_at 1000) = 3600001000 - 3600000000 \<and>
   snapshot_at 1000 \<in> set (metrics_history aged_monitor) \<and>
   m_timestamp (snapshot_at 1000) = 3600001000 - 3600000000"
  using cleanup_retains_only_recent [of 3600001000 aged_monitor]
  by (simp add: cleanup_old_data_def timedelta_hours_def aged_monitor_def sample_at_def
      snapshot_at_def init_monitor_def probe_sample_def slow_metrics_def)

section \<open>Properties of the prober\<close>

text \<open>
  An exception inside the \<^verbatim>\<open>try\<close> block of \<^verbatim>\<open>perform_request\<close> gives a failed sample with
  status 0, and a \<^verbatim>\<open>GET\<close> always gives a sample.
\<close>

lemma perform_request_transport_failure:
  assumes "outcome p = Raised" and "perform_request ep method data p = Some r"
  shows "success r = False \<and> status_code r = 0 \<and> endpoint r = ep"
  using assms by (auto simp: perform_request_def Let_def split: if_splits)

lemma perform_request_get:
  "upper method = ''GET'' \<Longrightarrow> \<exists>r. perform_request ep method data p = Some r"
  by (cases "outcome p") (simp_all add: perform_request_def Let_def)

text \<open>
  Claim C7 says that \<^verbatim>\<open>perform_request\<close> returns a sample for every method string and
  optional body. For the method \<^verbatim>\<open>PUT\<close>, and for \<^verbatim>\<open>POST\<close> without data or with an empty
  dictionary, no branch is taken and the call returns \<^verbatim>\<open>None\<close>, although the service
  answered.
\<close>

theorem perform_request_put_returns_none:
  "perform_request ''/health'' ''PUT'' None answered_probe = None \<and>
   perform_request ''/health'' ''POST'' None answered_probe = None \<and>
   perform_request ''/health'' ''POST'' (Some []) answered_probe = None"
  by (simp add: perform_request_def upper_def upper_char_def truthy_def Let_def)

section \<open>Properties of the metric emission\<close>

text \<open>
  Claim C8, as the code has it. When the tables of response time, error rate and
  consecutive failures have their two entries, \<^verbatim>\<open>log_metrics\<close> hands five records to the
  logger. The overall status is critical when the error rate or the average latency is
  above its critical threshold or the consecutive failures are at or above theirs; else
  warning, by the same test on the warning thresholds; else normal. Neither the p95 latency
  nor the health status enters it. The first four records carry the overall status; the
  record of \<open>health_status\<close> has the value 1 and the status normal for a healthy snapshot,
  the value 0 and the status critical otherwise.
\<close>

theorem log_metrics_records:
  assumes "response_time_ms (thresholds config) ''critical'' = Some rt_c"
      and "response_time_ms (thresholds config) ''warning'' = Some rt_w"
      and "error_rate_percent (thresholds config) ''critical'' = Some er_c"
      and "error_rate_percent (thresholds config) ''warning'' = Some er_w"
      and "th_consecutive_failures (thresholds config) ''critical'' = Some cf_c"
      and "th_consecutive_failures (thresholds config) ''warning'' = Some cf_w"
  shows "log_metrics config metrics =
     (let overall =
        (if error_rate metrics > er_c \<or> response_time_avg metrics > rt_c \<or>
            m_consecutive_failures metrics \<ge> cf_c then ''critical''
         else if error_rate metrics > er_w \<or> response_time_avg metrics > rt_w \<or>
            m_consecutive_failures metrics \<ge> cf_w then ''warning''
         else ''normal'')
      in Inr [\<lparr>metric = ''response_time_avg'', metric_value = response_time_avg metrics,
                status = overall\<rparr>,
              \<lparr>metric = ''response_time_p95'', metric_value = response_time_p95 metrics,
                status = overall\<rparr>,
              \<lparr>metric = ''error_rate'', metric_value = error_rate metrics, status = overall\<rparr>,
              \<lparr>metric = ''consecutive_failures'',
                metric_value = real_of_int (m_consecutive_failures metrics), status = overall\<rparr>,
              \<lparr>metric = ''health_status'',
                metric_value = (if m_health_status metrics then 1 else 0),
                status = (if m_health_status metrics then ''normal'' else ''critical'')\<rparr>])"
proof -
  have "overall_status config metrics =
      Inr (if error_rate metrics > er_c \<or> response_time_avg metrics > rt_c \<or>
            m_consecutive_failures metrics \<ge> cf_c then ''critical''
         else if error_rate metrics > er_w \<or> response_time_avg metrics > rt_w \<or>
            m_consecutive_failures metrics \<ge> cf_w then ''warning''
         else ''normal'')"
    using assms by (simp add: overall_status_def latency_or_failures_def getitem_Some)
  then show ?thesis
    by (simp add: log_metrics_def Let_def)
qed

text \<open>A healthy snapshot with an average latency of 6000 under the default thresholds.\<close>

theorem log_metrics_records_witness:
  "log_metrics default_config slow_healthy_metrics =
     Inr [\<lparr>metric = ''response_time_avg'', metric_value = 6000, status = ''critical''\<rparr>,
          \<lparr>metric = ''response_time_p95'', metric_value = 6500, status = ''critical''\<rparr>,
          \<lparr>metric = ''error_rate'', metric_value = 0, status = ''critical''\<rparr>,
          \<lparr>metric = ''consecutive_failures'', metric_value = 0, status = ''critical''\<rparr>,
          \<lparr>metric = ''health_status'', metric_value = 1, status = ''normal''\<rparr>]"
  using log_metrics_records [OF default_lookups(1,2,5,6,7,8), of slow_healthy_metrics]
  by (simp add: slow_healthy_metrics_def Let_def)

text \<open>
  The statement of C8 has all five records carry the overall status. On that snapshot the
  overall status is critical and the record of \<open>health_status\<close> is tagged normal.
\<close>

theorem log_metrics_health_tag_counterexample:
  "overall_status default_config slow_healthy_metrics = Inr ''critical'' \<and>
   map_sum id (map status) (log_metrics default_config slow_healthy_metrics) \<noteq>
     Inr [''critical'', ''critical'', ''critical'', ''critical'', ''critical'']"
  by (simp add: log_metrics_def overall_status_def latency_or_failures_def getitem_def
      default_lookups slow_healthy_metrics_def)

section \<open>Properties of the cycle\<close>

text \<open>No operation adds to \<open>request_history\<close>.\<close>

lemma calculate_metrics_history:
  "calculate_metrics self now requests = Inr (m, self') \<Longrightarrow>
     request_history self' = request_history self"
  by (auto simp: calculate_metrics_def Let_def split: if_splits sum.splits)

lemma should_alert_history:
  "request_history (snd (should_alert config self now d s)) = request_history self"
  by (simp add: should_alert_def Let_def split: option.split)

lemma gate_alerts_history:
  "request_history (snd (gate_alerts config clock i self as)) = request_history self"
proof (induction as arbitrary: i self)
  case Nil
  then show ?case by simp
next
  case (Cons a as)
  have "request_history (snd (gate_alerts config clock (Suc i)
          (snd (should_alert config self (clock i) (alert_type a) (level a))) as)) =
        request_history self"
    by (simp add: Cons.IH should_alert_history)
  then show ?case
    by (simp add: split_def Let_def)
qed

lemma cleanup_old_data_history:
  "request_history (cleanup_old_data now self) =
     filter (\<lambda>r. timestamp r > now - 3600000000) (request_history self)"
  by (simp add: cleanup_old_data_def timedelta_hours_def Let_def)

lemma monitoring_cycle_history:
  "request_history (final (monitoring_cycle config env self)) = request_history self \<or>
   request_history (final (monitoring_cycle config env self)) =
     filter (\<lambda>r. timestamp r > cleanup_now env - 3600000000) (request_history self)"
proof -
  show ?thesis
    unfolding monitoring_cycle_def
    by (auto simp: Let_def split_def cleanup_old_data_history
        dest!: calculate_metrics_history
        split: sum.splits option.splits prod.splits)
        (simp_all add: gate_alerts_history)
qed

lemma monitoring_cycle_empty:
  "request_history self = [] \<Longrightarrow> request_history (final (monitoring_cycle config env self)) = []"
  using monitoring_cycle_history [of config env self] by auto

lemma start_monitoring_empty:
  "request_history self = [] \<Longrightarrow> request_history (start_monitoring config envs self) = []"
proof (induction envs arbitrary: self)
  case Nil
  then show ?case by simp
next
  case (Cons env envs)
  then show ?case
    by (simp add: Let_def monitoring_cycle_empty split: option.split)
qed

text \<open>What the operations do to \<open>metrics_history\<close>.\<close>

lemma calculate_metrics_frame:
  "calculate_metrics self now requests = Inr (m, self') \<Longrightarrow>
     metrics_history self' = metrics_history self \<and> m_timestamp m = now"
  by (auto simp: calculate_metrics_def Let_def split: if_splits sum.splits)

lemma should_alert_metrics_history:
  "metrics_history (snd (should_alert config self now d s)) = metrics_history self"
  by (simp add: should_alert_def Let_def split: option.split)

lemma gate_alerts_metrics_history:
  "metrics_history (snd (gate_alerts config clock i self as)) = metrics_history self"
proof (induction as arbitrary: i self)
  case Nil
  then show ?case by simp
next
  case (Cons a as)
  have "metrics_history (snd (gate_alerts config clock (Suc i)
          (snd (should_alert config self (clock i) (alert_type a) (level a))) as)) =
        metrics_history self"
    by (simp add: Cons.IH should_alert_metrics_history)
  then show ?case
    by (simp add: split_def Let_def)
qed

lemma cleanup_old_data_metrics_history:
  "metrics_history (cleanup_old_data now self) =
     filter (\<lambda>m. m_timestamp m > now - 3600000000) (metrics_history self)"
  by (simp add: cleanup_old_data_def timedelta_hours_def Let_def)

text \<open>A cycle that ends without an exception has run every stage.\<close>

lemma monitoring_cycle_completed:
  assumes "raised (monitoring_cycle config env self) = None"
  shows "\<exists>requests metrics self2 alerts.
     calculate_metrics (self\<lparr>health_status := fst (check_health config (health_probe env))\<rparr>)
       (metrics_now env) requests = Inr (metrics, self2) \<and>
     final (monitoring_cycle config env self) =
       cleanup_old_data (cleanup_now env)
         (snd (gate_alerts config (alert_now env) 0
            (self2\<lparr>metrics_history := metrics_history self2 @ [metrics]\<rparr>) alerts))"
proof (cases "getitem (endpoints config) ''health''")
  case (Inl e)
  with assms show ?thesis
    by (simp add: monitoring_cycle_def split_def Let_def)
next
  case (Inr ep)
  note ep = this
  define self1 where "self1 = self\<lparr>health_status := fst (check_health config (health_probe env))\<rparr>"
  define first where "first =
     \<lparr>endpoint = ep, response_time = snd (check_health config (health_probe env)),
      status_code = (if fst (check_health config (health_probe env)) then 200 else 500),
      success = fst (check_health config (health_probe env)),
      timestamp = health_sample_now env\<rparr>"
  define more where "more = map (\<lambda>i. perform_request ep ''GET'' None (probes env i))
                          [0..<nat (samples_per_check config - 1)]"
  have unf: "monitoring_cycle config env self =
     (case those more of
        None \<Rightarrow> \<lparr>final = self1, emitted = [], logged = [], raised = Some AttributeError\<rparr>
      | Some rest \<Rightarrow>
          (case calculate_metrics self1 (metrics_now env) (first # rest) of
             Inl e \<Rightarrow> \<lparr>final = self1, emitted = [], logged = [], raised = Some e\<rparr>
           | Inr (metrics, self2) \<Rightarrow>
               let self3 = self2\<lparr>metrics_history := metrics_history self2 @ [metrics]\<rparr>
               in case check_thresholds config metrics of
                    Inl e \<Rightarrow> \<lparr>final = self3, emitted = [], logged = [], raised = Some e\<rparr>
                  | Inr alerts' \<Rightarrow>
                      let (fired, self4) = gate_alerts config (alert_now env) 0 self3 alerts'
                      in case log_metrics config metrics of
                           Inl e \<Rightarrow> \<lparr>final = self4, emitted = fired, logged = [],
                                     raised = Some e\<rparr>
                         | Inr records \<Rightarrow>
                             (case inference_records config env of
                                Inl e \<Rightarrow> \<lparr>final = self4, emitted = fired,
                                          logged = records, raised = Some e\<rparr>
                              | Inr extra \<Rightarrow>
                                  \<lparr>final = cleanup_old_data (cleanup_now env) self4,
                                   emitted = fired, logged = records @ extra,
                                   raised = None\<rparr>)))"
    unfolding monitoring_cycle_def self1_def first_def more_def Let_def split_def
    by (simp add: ep)
  show ?thesis
  proof (cases "those more")
    case None
    with assms unf show ?thesis by simp
  next
    case (Some rest)
    note rest = this
    show ?thesis
    proof (cases "calculate_metrics self1 (metrics_now env) (first # rest)")
      case (Inl e)
      with assms unf rest show ?thesis by simp
    next
      case (Inr ms)
      obtain metrics self2 where ms: "ms = (metrics, self2)" by (cases ms)
      note cm = Inr [unfolded ms]
      show ?thesis
      proof (cases "check_thresholds config metrics")
        case (Inl e)
        with assms unf rest cm show ?thesis by (simp add: Let_def)
      next
        case (Inr alerts')
        have "final (monitoring_cycle config env self) =
          cleanup_old_data (cleanup_now env)
            (snd (gate_alerts config (alert_now env) 0
               (self2\<lparr>metrics_history := metrics_history self2 @ [metrics]\<rparr>) alerts'))"
          using assms unf rest cm Inr
          by (simp add: Let_def split_def split: sum.splits)
        with cm show ?thesis
          unfolding self1_def by blast
      qed
    qed
  qed
qed

lemma monitoring_cycle_snapshot:
  assumes "raised (monitoring_cycle config env self) = None"
  shows "\<exists>m. m_timestamp m = metrics_now env \<and>
     metrics_history (final (monitoring_cycle config env self)) =
       filter (\<lambda>m. m_timestamp m > cleanup_now env - 3600000000) (metrics_history self @ [m])"
proof -
  from monitoring_cycle_completed [OF assms]
  obtain requests metrics self2 alerts where
    cm: "calculate_metrics (self\<lparr>health_status := fst (check_health config (health_probe env))\<rparr>)
       (metrics_now env) requests = Inr (metrics, self2)"
    and fin: "final (monitoring_cycle config env self) =
       cleanup_old_data (cleanup_now env)
         (snd (gate_alerts config (alert_now env) 0
            (self2\<lparr>metrics_history := metrics_history self2 @ [metrics]\<rparr>) alerts))"
    by blast
  from calculate_metrics_frame [OF cm]
  have "metrics_history self2 = metrics_history self" and t: "m_timestamp metrics = metrics_now env"
    by simp_all
  then have "metrics_history (final (monitoring_cycle config env self)) =
       filter (\<lambda>m. m_timestamp m > cleanup_now env - 3600000000) (metrics_history self @ [metrics])"
    by (simp only: fin cleanup_old_data_metrics_history gate_alerts_metrics_history)
       simp
  with t show ?thesis by blast
qed

lemma healthy_cycle_raised:
  "raised (monitoring_cycle default_config healthy_env init_monitor) = None"
  by code_simp

lemma healthy_cycle_history:
  "metrics_history (final (monitoring_cycle default_config healthy_env init_monitor)) =
     [\<lparr>m_timestamp = 9, response_time_avg = 50, response_time_p95 = 50,
       error_rate = 0, total_requests = 3, successful_requests = 3,
       failed_requests = 0, m_consecutive_failures = 0, m_health_status = True\<rparr>]"
  by code_simp

text \<open>
  Claim C10. The monitor starts with an empty \<open>request_history\<close>, and the list is empty
  after any number of cycles; pruning the initial monitor leaves it empty. The gate and the
  aggregation leave the list as it is, and a cycle never makes it longer. A cycle that ends
  without an exception has appended its snapshot, taken at the cycle's clock reading, to
  \<open>metrics_history\<close> before pruning.
\<close>

theorem request_history_stays_empty:
  "request_history (start_monitoring config envs init_monitor) = [] \<and>
   request_history (cleanup_old_data now init_monitor) = [] \<and>
   request_history (snd (should_alert config self now d s)) = request_history self \<and>
   (\<exists>m self'. calculate_metrics self now requests = Inr (m, self') \<and>
      request_history self' = request_history self) \<and>
   length (request_history (final (monitoring_cycle config env self))) \<le>
     length (request_history self) \<and>
   (raised (monitoring_cycle config env self) = None \<longrightarrow>
      (\<exists>m. m_timestamp m = metrics_now env \<and>
         metrics_history (final (monitoring_cycle config env self)) =
           filter (\<lambda>m. m_timestamp m > cleanup_now env - 3600000000)
             (metrics_history self @ [m])))"
proof (intro conjI)
  have e: "request_history init_monitor = []"
    by (simp add: init_monitor_def)
  show "request_history (start_monitoring config envs init_monitor) = []"
    by (rule start_monitoring_empty [OF e])
  show "request_history (cleanup_old_data now init_monitor) = []"
    by (simp add: cleanup_old_data_history e)
  show "request_history (snd (should_alert config self now d s)) = request_history self"
    by (rule should_alert_history)
  show "\<exists>m self'. calculate_metrics self now requests = Inr (m, self') \<and>
      request_history self' = request_history self"
  proof (cases "requests = []")
    case True
    then show ?thesis by (simp add: calculate_metrics_empty)
  next
    case False
    then show ?thesis by (simp add: calculate_metrics_nonempty)
  qed
  show "length (request_history (final (monitoring_cycle config env self))) \<le>
     length (request_history self)"
    using monitoring_cycle_history [of config env self] by auto
  show "raised (monitoring_cycle config env self) = None \<longrightarrow>
      (\<exists>m. m_timestamp m = metrics_now env \<and>
         metrics_history (final (monitoring_cycle config env self)) =
           filter (\<lambda>m. m_timestamp m > cleanup_now env - 3600000000)
             (metrics_history self @ [m]))"
    using monitoring_cycle_snapshot by blast
qed

text \<open>One cycle of three answered probes from the initial monitor.\<close>

theorem request_history_stays_empty_witness:
  "raised (monitoring_cycle default_config healthy_env init_monitor) = None \<and>
   request_history (start_monitoring default_config [healthy_env] init_monitor) = [] \<and>
   metrics_history (final (monitoring_cycle default_config healthy_env init_monitor)) =
     [\<lparr>m_timestamp = 9, response_time_avg = 50, response_time_p95 = 50,
       error_rate = 0, total_requests = 3, successful_requests = 3,
       failed_requests = 0, m_consecutive_failures = 0, m_health_status = True\<rparr>]"
  using request_history_stays_empty [of default_config "[healthy_env]" 0 init_monitor
      "''error_rate''" "''warning''" "[]" healthy_env]
    healthy_cycle_raised healthy_cycle_history
  by simp

end
